theory Spec2Isabelle
  imports Main
begin

section \<open>Data model of banco.py\<close>

text \<open>
  Python values that the code produces where the static type is not fixed:
  \<open>decide_compra\<close> returns the literals \<open>True\<close>/\<open>False\<close> on most paths and the
  result of \<open>getrandbits(1)\<close>, an \<open>int\<close>, on the \<open>aleatorio\<close> path.
  \<open>truthy\<close> is the truth value Python's \<open>if\<close> gives to such a value.
\<close>

datatype py_value = PyBool bool | PyInt int

fun truthy :: "py_value \<Rightarrow> bool" where
  "truthy (PyBool b) = b"
| "truthy (PyInt n) = (n \<noteq> 0)"

fun is_bool :: "py_value \<Rightarrow> bool" where
  "is_bool (PyBool b) = True"
| "is_bool (PyInt n) = False"

text \<open>The exceptions the modelled code can raise.\<close>

datatype error = IndexError | AttributeError

text \<open>\<open>class Comportamento\<close>: four independent boolean traits.\<close>

record Comportamento =
  impulsivo :: bool
  exigente :: bool
  cauteloso :: bool
  aleatorio :: bool

text \<open>
  \<open>class Propriedade\<close>. The field \<open>dono\<close> holds a reference to a \<open>Jogador\<close> object or
  \<open>None\<close>; a reference is the address of the object in the store of players
  (field \<open>objetos\<close> of the game state below). The fields \<open>nome\<close> and
  \<open>posicao_tabuleiro\<close> of the class are never read or written by the code modelled here;
  they are kept under the names \<open>nome_propriedade\<close> and \<open>posicao_propriedade\<close>, since a
  record field name is a constant of the theory and \<open>Jogador\<close> has fields of the same names.
\<close>

record Propriedade =
  nome_propriedade :: string
  custo_venda :: int
  valor_aluguel :: int
  dono :: "nat option"
  posicao_propriedade :: "int option"

text \<open>\<open>class Jogador\<close>.\<close>

record Jogador =
  nome :: string
  saldo :: int
  comportamento :: Comportamento
  posicao_tabuleiro :: int
  falido :: bool

text \<open>
  \<open>class Tabuleiro\<close> has the single field \<open>propriedades\<close>, a list. Each slot of the
  list holds a \<open>Propriedade\<close> object of its own, as \<open>setup_jogo\<close> builds the board.
\<close>

type_synonym Tabuleiro = "Propriedade list"

text \<open>
  \<open>class Jogo\<close>, together with the store of \<open>Jogador\<close> objects. \<open>jogadores\<close> is the list
  of references (addresses) held by the game; \<open>objetos\<close> maps an address to the current
  field values of the object there. The same object may occur twice in \<open>jogadores\<close>, and
  a property may be owned by an object that is not in the list.
\<close>

record Jogo =
  objetos :: "nat \<Rightarrow> Jogador"
  jogadores :: "nat list"
  tabuleiro :: Tabuleiro
  rodada :: int
  jogadores_falidos :: int

section \<open>Comportamento.decide_compra\<close>

text \<open>
  Lines 36-56. The last argument is the value returned by \<open>getrandbits(1)\<close>, which is
  read only on the \<open>aleatorio\<close> path.
\<close>

definition decide_compra :: "Comportamento \<Rightarrow> int \<Rightarrow> int \<Rightarrow> int \<Rightarrow> int \<Rightarrow> py_value" where
  "decide_compra self custo_propriedade aluguel saldo_jogador moeda =
     (if impulsivo self then PyBool True
      else if exigente self \<and> aluguel \<ge> 50 then PyBool True
      else if cauteloso self \<and> (saldo_jogador - custo_propriedade) \<ge> 80 then PyBool True
      else if aleatorio self then PyInt moeda
      else PyBool False)"

section \<open>Jogador\<close>

text \<open>
  Lines 77-81 of \<open>executa_jogada\<close>: the move by \<open>qtd_posicoes_andar\<close> places, with the
  wrap at 20 and the credit of 100.
\<close>

definition anda :: "int \<Rightarrow> Jogador \<Rightarrow> Jogador" where
  "anda qtd_posicoes_andar self =
     (if posicao_tabuleiro self + qtd_posicoes_andar > 20
      then self\<lparr>posicao_tabuleiro := posicao_tabuleiro self + qtd_posicoes_andar - 20,
                saldo := saldo self + 100\<rparr>
      else self\<lparr>posicao_tabuleiro := posicao_tabuleiro self + qtd_posicoes_andar\<rparr>)"

text \<open>
  Python's list subscript \<open>xs[i]\<close>: the slot that is read, counting from the end for a
  negative \<open>i\<close>, or \<open>None\<close> where Python raises \<open>IndexError\<close>.
\<close>

definition indice :: "'a list \<Rightarrow> int \<Rightarrow> nat option" where
  "indice xs i =
     (let n = int (length xs); k = (if i < 0 then n + i else i)
      in if 0 \<le> k \<and> k < n then Some (nat k) else None)"

text \<open>
  Lines 83-95 of \<open>executa_jogada\<close>: the lookup of the property, the purchase or the rent,
  and the bankruptcy test. \<open>self\<close> is the address of the acting player, whose object
  already holds the new position; \<open>moeda\<close> is what \<open>getrandbits(1)\<close> returns if it is
  called. \<open>if not propriedade.dono\<close> tests for \<open>None\<close>: a \<open>Jogador\<close> object defines neither
  \<open>__bool__\<close> nor \<open>__len__\<close> and is always true.
\<close>

definition negocia :: "nat \<Rightarrow> int \<Rightarrow> Jogo \<Rightarrow> error + Jogo" where
  "negocia self moeda g =
     (let j = objetos g self in
      case indice (tabuleiro g) (posicao_tabuleiro j - 1) of
        None \<Rightarrow> Inl IndexError
      | Some k \<Rightarrow>
          let propriedade = tabuleiro g ! k;
              (tab, j2) =
                (case dono propriedade of
                   None \<Rightarrow>
                     if truthy (decide_compra (comportamento j) (custo_venda propriedade)
                                  (valor_aluguel propriedade) (saldo j) moeda)
                     then ((tabuleiro g)[k := propriedade\<lparr>dono := Some self\<rparr>],
                           j\<lparr>saldo := saldo j - custo_venda propriedade\<rparr>)
                     else (tabuleiro g, j)
                 | Some d \<Rightarrow>
                     (tabuleiro g, j\<lparr>saldo := saldo j - valor_aluguel propriedade\<rparr>));
              j3 = (if saldo j2 < 0 then j2\<lparr>falido := True\<rparr> else j2)
          in Inr (g\<lparr>objetos := (objetos g)(self := j3), tabuleiro := tab\<rparr>))"

text \<open>
  \<open>Jogador.executa_jogada\<close>, lines 73-95. \<open>dado\<close> is the value returned by
  \<open>joga_dado\<close> (\<open>randint(1,6)\<close>). An \<open>IndexError\<close> leaves \<open>play\<close> uncaught, so the state
  at the time of the exception is not part of the result.
\<close>

definition executa_jogada :: "nat \<Rightarrow> int \<Rightarrow> int \<Rightarrow> Jogo \<Rightarrow> error + Jogo" where
  "executa_jogada self dado moeda g =
     negocia self moeda (g\<lparr>objetos := (objetos g)(self := anda dado (objetos g self))\<rparr>)"

text \<open>\<open>Jogador.retorna_comportamento\<close>, lines 97-106; falling off the end returns \<open>None\<close>.\<close>

definition retorna_comportamento :: "Jogador \<Rightarrow> string option" where
  "retorna_comportamento self =
     (if impulsivo (comportamento self) then Some ''impulsivo''
      else if exigente (comportamento self) then Some ''exigente''
      else if cauteloso (comportamento self) then Some ''cauteloso''
      else if aleatorio (comportamento self) then Some ''aleatorio''
      else None)"

section \<open>Tabuleiro\<close>

text \<open>
  \<open>Tabuleiro.remove_jogador\<close>, lines 124-128. \<open>propriedade.dono == jogador\<close> is the
  \<open>__eq__\<close> that \<open>@dataclass\<close> generates: two \<open>Jogador\<close> objects are equal when their
  fields are, so the test compares the stored field values, not the addresses.
  \<open>None == jogador\<close> is false.
\<close>

definition limpa_dono :: "(nat \<Rightarrow> Jogador) \<Rightarrow> nat \<Rightarrow> Propriedade \<Rightarrow> Propriedade" where
  "limpa_dono mem jogador propriedade =
     (case dono propriedade of
        None \<Rightarrow> propriedade
      | Some d \<Rightarrow> if mem d = mem jogador then propriedade\<lparr>dono := None\<rparr> else propriedade)"

definition remove_jogador :: "nat \<Rightarrow> Jogo \<Rightarrow> Jogo" where
  "remove_jogador jogador g = g\<lparr>tabuleiro := map (limpa_dono (objetos g) jogador) (tabuleiro g)\<rparr>"

section \<open>Jogo\<close>

text \<open>
  The random draws of one game: the pair (value of \<open>joga_dado\<close>, value of
  \<open>getrandbits(1)\<close>) for the turn taken in round \<open>rodada\<close> by the player at a given index
  of \<open>jogadores\<close>.
\<close>

type_synonym sorte = "int \<Rightarrow> nat \<Rightarrow> int \<times> int"

text \<open>Lines 146-149 of \<open>play\<close>: one turn and the processing of a bankruptcy.\<close>

definition turno :: "nat \<Rightarrow> int \<Rightarrow> int \<Rightarrow> Jogo \<Rightarrow> error + Jogo" where
  "turno jogador dado moeda g =
     (case executa_jogada jogador dado moeda g of
        Inl e \<Rightarrow> Inl e
      | Inr g1 \<Rightarrow>
          Inr (if falido (objetos g1 jogador)
               then (remove_jogador jogador g1)\<lparr>jogadores_falidos := jogadores_falidos g1 + 1\<rparr>
               else g1))"

text \<open>
  The \<open>for\<close> loop of lines 142-152 over the players from index \<open>i\<close> on: \<open>continue\<close> for a
  bankrupt player, \<open>break\<close> once more than two players are bankrupt.
\<close>

fun percorre :: "(nat \<Rightarrow> int \<times> int) \<Rightarrow> nat \<Rightarrow> nat list \<Rightarrow> Jogo \<Rightarrow> error + Jogo" where
  "percorre sorteio i [] g = Inr g"
| "percorre sorteio i (jogador # resto) g =
     (if falido (objetos g jogador) then percorre sorteio (Suc i) resto g
      else case turno jogador (fst (sorteio i)) (snd (sorteio i)) g of
             Inl e \<Rightarrow> Inl e
           | Inr g2 \<Rightarrow>
               if jogadores_falidos g2 > 2 then Inr g2
               else percorre sorteio (Suc i) resto g2)"

text \<open>One iteration of the \<open>while\<close> loop, lines 142-154.\<close>

definition volta :: "sorte \<Rightarrow> Jogo \<Rightarrow> error + Jogo" where
  "volta sorteio g =
     (case percorre (sorteio (rodada g)) 0 (jogadores g) g of
        Inl e \<Rightarrow> Inl e
      | Inr g' \<Rightarrow> Inr (g'\<lparr>rodada := rodada g' + 1\<rparr>))"

lemma negocia_rodada: "negocia self moeda g = Inr g' \<Longrightarrow> rodada g' = rodada g"
  by (auto simp: negocia_def Let_def split: option.splits prod.splits if_splits)

lemma executa_jogada_rodada: "executa_jogada self dado moeda g = Inr g' \<Longrightarrow> rodada g' = rodada g"
  by (auto simp: executa_jogada_def dest: negocia_rodada)

lemma turno_rodada: "turno jogador dado moeda g = Inr g' \<Longrightarrow> rodada g' = rodada g"
  by (auto simp: turno_def remove_jogador_def split: sum.splits if_splits
           dest: executa_jogada_rodada)

lemma percorre_rodada: "percorre sorteio i js g = Inr g' \<Longrightarrow> rodada g' = rodada g"
proof (induction js arbitrary: i g)
  case Nil
  then show ?case by simp
next
  case (Cons j js)
  then show ?case
    by (auto split: if_splits sum.splits dest: turno_rodada)
qed

lemma volta_rodada: "volta sorteio g = Inr g' \<Longrightarrow> rodada g' = rodada g + 1"
  by (auto simp: volta_def split: sum.splits dest: percorre_rodada)

text \<open>The \<open>while\<close> loop of lines 141-154.\<close>

function enquanto :: "sorte \<Rightarrow> Jogo \<Rightarrow> error + Jogo" where
  "enquanto sorteio g =
     (if rodada g < 1000 \<and> jogadores_falidos g < 3
      then (case volta sorteio g of Inl e \<Rightarrow> Inl e | Inr g' \<Rightarrow> enquanto sorteio g')
      else Inr g)"
  by pat_completeness auto
termination
  by (relation "measure (\<lambda>(sorteio, g). nat (1000 - rodada g))")
     (auto dest: volta_rodada)

declare enquanto.simps [simp del]

text \<open>
  Lines 158-163: the choice of the winner. \<open>if not vencedor\<close> tests for \<open>None\<close>,
  a \<open>Jogador\<close> object being always true.
\<close>

fun escolhe :: "(nat \<Rightarrow> Jogador) \<Rightarrow> nat option \<Rightarrow> nat list \<Rightarrow> nat option" where
  "escolhe mem vencedor [] = vencedor"
| "escolhe mem vencedor (jogador # resto) =
     escolhe mem
       (case vencedor of
          None \<Rightarrow> Some jogador
        | Some v \<Rightarrow> if saldo (mem jogador) > saldo (mem v) then Some jogador else Some v)
       resto"

text \<open>
  \<open>Jogo.play\<close>, lines 139-170. The result is the dictionary handed to \<open>Counter\<close>, whose
  keys are strings or \<open>None\<close> (the label of a winner with no trait). With no player,
  \<open>vencedor\<close> is \<open>None\<close> and line 166 raises \<open>AttributeError\<close>. \<open>reset\<close> writes only the
  fields of the \<open>Jogo\<close> object, after the result is computed.
\<close>

definition play :: "sorte \<Rightarrow> Jogo \<Rightarrow> error + (string option \<rightharpoonup> int)" where
  "play sorteio g =
     (case enquanto sorteio g of
        Inl e \<Rightarrow> Inl e
      | Inr g' \<Rightarrow>
          let time_out = (if rodada g' = 1000 \<and> jogadores_falidos g' < 3 then 1 else 0)
          in (case escolhe (objetos g') None (jogadores g') of
                None \<Rightarrow> Inl AttributeError
              | Some vencedor \<Rightarrow>
                  Inr (Map.empty(Some ''timeout'' \<mapsto> time_out,
                                 Some ''turnos'' \<mapsto> rodada g',
                                 retorna_comportamento (objetos g' vencedor) \<mapsto> 1))))"

section \<open>Notions used to state the properties\<close>

text \<open>
  \<open>voltas sorteio n g\<close> runs the body of the \<open>while\<close> loop \<open>n\<close> times from \<open>g\<close>, without
  testing the loop condition; an exception ends the run.
\<close>

primrec voltas :: "sorte \<Rightarrow> nat \<Rightarrow> Jogo \<Rightarrow> error + Jogo" where
  "voltas sorteio 0 g = Inr g"
| "voltas sorteio (Suc n) g =
     (case volta sorteio g of Inl e \<Rightarrow> Inl e | Inr g' \<Rightarrow> voltas sorteio n g')"

text \<open>
  The states that the loops of \<open>play\<close> can pass through from a state \<open>g0\<close>: a player of
  the list who is not bankrupt takes a turn (lines 143-149, with any draws), or a round
  ends (line 154). The order of the players within a round and the loop conditions are
  left open, so this set contains every state the loops really reach (lemmas
  \<open>percorre_alcanca\<close>, \<open>volta_alcanca\<close> and \<open>enquanto_alcanca\<close> below).
\<close>

inductive alcanca :: "Jogo \<Rightarrow> Jogo \<Rightarrow> bool" for g0 :: Jogo where
  inicio: "alcanca g0 g0"
| joga: "alcanca g0 g \<Longrightarrow> jogador \<in> set (jogadores g) \<Longrightarrow> \<not> falido (objetos g jogador) \<Longrightarrow>
         turno jogador dado moeda g = Inr g' \<Longrightarrow> alcanca g0 g'"
| fim_rodada: "alcanca g0 g \<Longrightarrow> alcanca g0 (g\<lparr>rodada := rodada g + 1\<rparr>)"

text \<open>No property of the board has the object at address \<open>a\<close> as its owner.\<close>

definition sem_posse :: "nat \<Rightarrow> Jogo \<Rightarrow> bool" where
  "sem_posse a g = (\<forall>p \<in> set (tabuleiro g). dono p \<noteq> Some a)"

section \<open>Concrete players, properties and games\<close>

text \<open>
  The strategies and players that \<open>setup_jogo\<close> builds (\<open>Comportamento(impulsivo=True)\<close>,
  \<open>Jogador(nome, saldo, comportamento)\<close> with the defaults of the class) and a property
  as \<open>Propriedade(nome=..., custo_venda=..., valor_aluguel=...)\<close> builds it. The table
  \<open>Dados.propriedades\<close> is not among the sources, so the boards below are examples.
\<close>

definition so_impulsivo :: Comportamento where
  "so_impulsivo = \<lparr>impulsivo = True, exigente = False, cauteloso = False, aleatorio = False\<rparr>"

definition so_exigente :: Comportamento where
  "so_exigente = \<lparr>impulsivo = False, exigente = True, cauteloso = False, aleatorio = False\<rparr>"

definition so_cauteloso :: Comportamento where
  "so_cauteloso = \<lparr>impulsivo = False, exigente = False, cauteloso = True, aleatorio = False\<rparr>"

definition so_aleatorio :: Comportamento where
  "so_aleatorio = \<lparr>impulsivo = False, exigente = False, cauteloso = False, aleatorio = True\<rparr>"

definition novo_jogador :: "string \<Rightarrow> int \<Rightarrow> Comportamento \<Rightarrow> Jogador" where
  "novo_jogador n s c =
     \<lparr>nome = n, saldo = s, comportamento = c, posicao_tabuleiro = 0, falido = False\<rparr>"

definition nova_propriedade :: "string \<Rightarrow> int \<Rightarrow> int \<Rightarrow> Propriedade" where
  "nova_propriedade n custo aluguel =
     \<lparr>nome_propriedade = n, custo_venda = custo, valor_aluguel = aluguel, dono = None,
      posicao_propriedade = None\<rparr>"

text \<open>A game of one player, the object at address 0, on the board \<open>tab\<close>.\<close>

definition mesa :: "Jogador \<Rightarrow> Tabuleiro \<Rightarrow> Jogo" where
  "mesa j tab =
     \<lparr>objetos = (\<lambda>a. j), jogadores = [0], tabuleiro = tab, rodada = 0, jogadores_falidos = 0\<rparr>"

text \<open>
  Three impulsive players with a balance of 50 on a board whose only property costs 100:
  each of them buys on the first turn and goes bankrupt.
\<close>

definition tres_impulsivos :: Jogo where
  "tres_impulsivos =
     \<lparr>objetos = (\<lambda>a. novo_jogador ''Jogador1'' 50 so_impulsivo)
                 (1 := novo_jogador ''Jogador2'' 50 so_impulsivo,
                  2 := novo_jogador ''Jogador3'' 50 so_impulsivo),
      jogadores = [0, 1, 2],
      tabuleiro = [nova_propriedade ''lote'' 100 20],
      rodada = 0, jogadores_falidos = 0\<rparr>"

text \<open>Every turn rolls a 1 and, where a coin is flipped, draws 0.\<close>

definition sempre_um :: sorte where
  "sempre_um = (\<lambda>r i. (1, 0))"

text \<open>Strategies with two traits and with none.\<close>

definition exigente_e_cauteloso :: Comportamento where
  "exigente_e_cauteloso = \<lparr>impulsivo = False, exigente = True, cauteloso = True, aleatorio = False\<rparr>"

definition sem_traco :: Comportamento where
  "sem_traco = \<lparr>impulsivo = False, exigente = False, cauteloso = False, aleatorio = False\<rparr>"

text \<open>Games of one player used as concrete instances.\<close>

definition jogo_saldo_zero :: Jogo where
  "jogo_saldo_zero =
     mesa (novo_jogador ''Jogador1'' 100 so_impulsivo) [nova_propriedade ''lote'' 100 20]"

definition jogo_aluguel_proprio :: Jogo where
  "jogo_aluguel_proprio =
     mesa (novo_jogador ''Jogador1'' 300 so_impulsivo)
          [(nova_propriedade ''lote'' 100 20)\<lparr>dono := Some 0\<rparr>]"

definition jogo_cauteloso :: Jogo where
  "jogo_cauteloso =
     mesa (novo_jogador ''Jogador3'' 300 so_cauteloso) [nova_propriedade ''lote'' 220 20]"

definition jogo_casa_18 :: Jogo where
  "jogo_casa_18 =
     mesa ((novo_jogador ''Jogador1'' 300 so_impulsivo)\<lparr>posicao_tabuleiro := 18\<rparr>)
          (replicate 20 (nova_propriedade ''lote'' 100 20))"

text \<open>
  The four players of \<open>setup_jogo\<close>, each with the starting balance of 300, at the
  addresses 0 to 3.
\<close>

definition quatro_iguais :: "nat \<Rightarrow> Jogador" where
  "quatro_iguais =
     (\<lambda>a. novo_jogador ''Jogador1'' 300 so_impulsivo)
       (1 := novo_jogador ''Jogador2'' 300 so_exigente,
        2 := novo_jogador ''Jogador3'' 300 so_cauteloso,
        3 := novo_jogador ''Jogador4'' 300 so_aleatorio)"

text \<open>A game of one impulsive player entering its round number 999.\<close>

definition jogo_ultima_rodada :: Jogo where
  "jogo_ultima_rodada =
     (mesa (novo_jogador ''Jogador1'' 300 so_impulsivo) [nova_propriedade ''lote'' 100 20])
       \<lparr>rodada := 999\<rparr>"

section \<open>Properties of decide_compra\<close>

lemma decide_compra_truthy:
  "truthy (decide_compra c custo aluguel s m) \<longleftrightarrow>
     impulsivo c \<or> (exigente c \<and> aluguel \<ge> 50) \<or> (cauteloso c \<and> s - custo \<ge> 80) \<or>
     (aleatorio c \<and> m \<noteq> 0)"
  by (auto simp add: decide_compra_def)

text \<open>
  Claim C9: \<open>decide_compra\<close> always returns a boolean, the \<open>aleatorio\<close> path included.
  The docstring promises \<open>bool\<close> and the comment on line 54 speaks of a random bool, but
  \<open>getrandbits(1)\<close> is an \<open>int\<close>: for a player with only the \<open>aleatorio\<close> trait the value
  returned is the integer drawn, which is not a \<open>bool\<close>.
\<close>

theorem decide_compra_aleatorio_int:
  "decide_compra so_aleatorio 100 10 300 1 = PyInt 1 \<and>
   \<not> is_bool (decide_compra so_aleatorio 100 10 300 1)"
  by (simp add: decide_compra_def so_aleatorio_def)

text \<open>
  The claim C3 as it is worded fails for a strategy with two traits: a player that is
  \<open>exigente\<close> and \<open>cauteloso\<close> buys a property whose rent is 10, below 50, because
  the \<open>exigente\<close> test that fails passes control to the \<open>cauteloso\<close> test.
\<close>

theorem exigente_nao_decide_sozinho:
  "\<not> impulsivo exigente_e_cauteloso \<and> exigente exigente_e_cauteloso \<and> \<not> (50 \<le> (10::int)) \<and>
   decide_compra exigente_e_cauteloso 100 10 300 0 = PyBool True"
  by (simp add: decide_compra_def exigente_e_cauteloso_def)

text \<open>
  Claim C3, amended: \<open>decide_compra\<close> tests the traits in the fixed order \<open>impulsivo\<close>,
  \<open>exigente\<close>, \<open>cauteloso\<close>, \<open>aleatorio\<close> and returns at the first test that succeeds.
  \<open>impulsivo\<close> always buys, whatever the price, rent, balance and other traits; otherwise
  \<open>exigente\<close> with rent \<open>\<ge> 50\<close> buys; otherwise \<open>cauteloso\<close> with balance - price \<open>\<ge> 80\<close>
  buys; otherwise \<open>aleatorio\<close> returns the one bit drawn (a purchase for exactly one of
  its two values); otherwise the result is \<open>False\<close>. A trait whose threshold fails does
  not end the evaluation. For a strategy with a single trait this gives: \<open>exigente\<close> buys
  iff rent \<open>\<ge> 50\<close>, \<open>cauteloso\<close> buys iff balance - price \<open>\<ge> 80\<close>, \<open>aleatorio\<close> buys iff
  the bit is 1.
\<close>

theorem decide_compra_cascata:
  "decide_compra (c\<lparr>impulsivo := True\<rparr>) custo aluguel s m = PyBool True \<and>
   decide_compra c custo aluguel s m =
     (if impulsivo c \<or> (exigente c \<and> aluguel \<ge> 50) \<or> (cauteloso c \<and> s - custo \<ge> 80)
      then PyBool True
      else if aleatorio c then PyInt m else PyBool False) \<and>
   (truthy (decide_compra c custo aluguel s m) \<longleftrightarrow>
      impulsivo c \<or> (exigente c \<and> aluguel \<ge> 50) \<or> (cauteloso c \<and> s - custo \<ge> 80) \<or>
      (aleatorio c \<and> m \<noteq> 0)) \<and>
   (truthy (decide_compra so_exigente custo aluguel s m) \<longleftrightarrow> aluguel \<ge> 50) \<and>
   (truthy (decide_compra so_cauteloso custo aluguel s m) \<longleftrightarrow> s - custo \<ge> 80) \<and>
   (truthy (decide_compra so_aleatorio custo aluguel s m) \<longleftrightarrow> m \<noteq> 0) \<and>
   card {b \<in> {0, 1}. truthy (decide_compra so_aleatorio custo aluguel s b)} = 1 \<and>
   decide_compra sem_traco custo aluguel s m = PyBool False"
proof -
  have "{b \<in> {0, 1}. truthy (decide_compra so_aleatorio custo aluguel s b)} = {1}"
    by (auto simp: decide_compra_def so_aleatorio_def)
  then have moeda: "card {b \<in> {0, 1}. truthy (decide_compra so_aleatorio custo aluguel s b)} = 1"
    by simp
  have ordem: "decide_compra c custo aluguel s m =
     (if impulsivo c \<or> (exigente c \<and> aluguel \<ge> 50) \<or> (cauteloso c \<and> s - custo \<ge> 80)
      then PyBool True
      else if aleatorio c then PyInt m else PyBool False)"
    by (auto simp: decide_compra_def)
  have imp: "decide_compra (c\<lparr>impulsivo := True\<rparr>) custo aluguel s m = PyBool True"
    by (simp add: decide_compra_def)
  have exi: "truthy (decide_compra so_exigente custo aluguel s m) \<longleftrightarrow> aluguel \<ge> 50"
    by (simp add: decide_compra_truthy so_exigente_def)
  have cau: "truthy (decide_compra so_cauteloso custo aluguel s m) \<longleftrightarrow> s - custo \<ge> 80"
    by (simp add: decide_compra_truthy so_cauteloso_def)
  have ale: "truthy (decide_compra so_aleatorio custo aluguel s m) \<longleftrightarrow> m \<noteq> 0"
    by (simp add: decide_compra_truthy so_aleatorio_def)
  have nada: "decide_compra sem_traco custo aluguel s m = PyBool False"
    by (simp add: decide_compra_def sem_traco_def)
  show ?thesis
    by (intro conjI imp ordem decide_compra_truthy exi cau ale moeda nada)
qed

section \<open>Properties of executa_jogada\<close>

lemma anda_campos:
  "comportamento (anda dado j) = comportamento j"
  "falido (anda dado j) = falido j"
  "nome (anda dado j) = nome j"
  by (simp_all add: anda_def)

lemma negocia_Inr_iff:
  "(\<exists>g'. negocia self moeda g = Inr g') \<longleftrightarrow>
     indice (tabuleiro g) (posicao_tabuleiro (objetos g self) - 1) \<noteq> None"
  by (auto simp: negocia_def Let_def split: option.splits prod.splits)

lemma indice_Some: "indice xs i = Some k \<Longrightarrow> k < length xs"
  by (auto simp: indice_def Let_def split: if_splits)

lemma indice_20:
  "length xs = 20 \<Longrightarrow> 1 \<le> p \<Longrightarrow> p \<le> 20 \<Longrightarrow> indice xs (p - 1) = Some (nat (p - 1))"
  by (auto simp: indice_def Let_def)

lemmas jogada_defs =
  executa_jogada_def negocia_def anda_def indice_def decide_compra_def Let_def

text \<open>
  Claim C4: after a turn, the player is bankrupt if and only if the balance is strictly
  negative; a balance of exactly 0 does not set the flag. A turn is taken by a player
  that is not yet bankrupt; in general the flag after the turn is the flag before it or
  a negative balance.
\<close>

theorem falido_sse_saldo_negativo:
  assumes "executa_jogada self dado moeda g = Inr g'"
  shows "(falido (objetos g' self) \<longleftrightarrow> falido (objetos g self) \<or> saldo (objetos g' self) < 0) \<and>
         (\<not> falido (objetos g self) \<longrightarrow>
            (falido (objetos g' self) \<longleftrightarrow> saldo (objetos g' self) < 0))"
  using assms
  by (auto simp: executa_jogada_def negocia_def Let_def anda_campos
           split: option.splits prod.splits if_splits)

theorem falido_sse_saldo_negativo_witness:
  "\<exists>g'. executa_jogada 0 1 0 jogo_saldo_zero = Inr g' \<and>
        \<not> falido (objetos jogo_saldo_zero 0) \<and>
        saldo (objetos g' 0) = 0 \<and> \<not> falido (objetos g' 0)"
proof -
  have "\<exists>g'. executa_jogada 0 1 0 jogo_saldo_zero = Inr g' \<and> saldo (objetos g' 0) = 0"
    by (simp add: jogo_saldo_zero_def mesa_def novo_jogador_def nova_propriedade_def so_impulsivo_def
                  jogada_defs)
  then obtain g' where e: "executa_jogada 0 1 0 jogo_saldo_zero = Inr g'"
      and s: "saldo (objetos g' 0) = 0"
    by blast
  have n: "\<not> falido (objetos jogo_saldo_zero 0)"
    by (simp add: jogo_saldo_zero_def mesa_def novo_jogador_def)
  from falido_sse_saldo_negativo[OF e] n s have "\<not> falido (objetos g' 0)" by simp
  with e s n show ?thesis by blast
qed

text \<open>
  Claim C5: when the property landed on has an owner, whoever it is (the acting player
  included), the rent is debited from the acting player's balance, no other player
  object changes (nobody is credited), and the board is unchanged.
\<close>

theorem aluguel_debitado:
  assumes "indice (tabuleiro g) (posicao_tabuleiro (anda dado (objetos g self)) - 1) = Some k"
      and "dono (tabuleiro g ! k) = Some d"
  shows "\<exists>g'. executa_jogada self dado moeda g = Inr g' \<and>
           tabuleiro g' = tabuleiro g \<and>
           saldo (objetos g' self) =
             saldo (anda dado (objetos g self)) - valor_aluguel (tabuleiro g ! k) \<and>
           (\<forall>b. b \<noteq> self \<longrightarrow> objetos g' b = objetos g b)"
  using assms
  by (auto simp: executa_jogada_def negocia_def Let_def split: option.splits prod.splits if_splits)

theorem aluguel_debitado_witness:
  "indice (tabuleiro jogo_aluguel_proprio)
          (posicao_tabuleiro (anda 1 (objetos jogo_aluguel_proprio 0)) - 1) = Some 0 \<and>
   dono (tabuleiro jogo_aluguel_proprio ! 0) = Some 0 \<and>
   saldo (objetos jogo_aluguel_proprio 0) = 300 \<and>
   (\<exists>g'. executa_jogada 0 1 0 jogo_aluguel_proprio = Inr g' \<and>
          tabuleiro g' = tabuleiro jogo_aluguel_proprio \<and>
          saldo (objetos g' 0) = 280 \<and>
          objetos g' 1 = objetos jogo_aluguel_proprio 1)"
proof -
  have i: "indice (tabuleiro jogo_aluguel_proprio)
             (posicao_tabuleiro (anda 1 (objetos jogo_aluguel_proprio 0)) - 1) = Some 0"
    by (simp add: jogo_aluguel_proprio_def mesa_def novo_jogador_def nova_propriedade_def
                  so_impulsivo_def jogada_defs)
  have d: "dono (tabuleiro jogo_aluguel_proprio ! 0) = Some 0"
    by (simp add: jogo_aluguel_proprio_def mesa_def novo_jogador_def nova_propriedade_def
                  so_impulsivo_def jogada_defs)
  have s0: "saldo (objetos jogo_aluguel_proprio 0) = 300"
    by (simp add: jogo_aluguel_proprio_def mesa_def novo_jogador_def nova_propriedade_def
                  so_impulsivo_def jogada_defs)
  have v: "saldo (anda 1 (objetos jogo_aluguel_proprio 0)) -
             valor_aluguel (tabuleiro jogo_aluguel_proprio ! 0) = 280"
    by (simp add: jogo_aluguel_proprio_def mesa_def novo_jogador_def nova_propriedade_def
                  so_impulsivo_def jogada_defs)
  from aluguel_debitado[OF i d, of 0] obtain g' where
      "executa_jogada 0 1 0 jogo_aluguel_proprio = Inr g'"
      "tabuleiro g' = tabuleiro jogo_aluguel_proprio"
      "saldo (objetos g' 0) =
         saldo (anda 1 (objetos jogo_aluguel_proprio 0)) -
         valor_aluguel (tabuleiro jogo_aluguel_proprio ! 0)"
      "\<forall>b. b \<noteq> 0 \<longrightarrow> objetos g' b = objetos jogo_aluguel_proprio b"
    by blast
  with v have "\<exists>g'. executa_jogada 0 1 0 jogo_aluguel_proprio = Inr g' \<and>
          tabuleiro g' = tabuleiro jogo_aluguel_proprio \<and> saldo (objetos g' 0) = 280 \<and>
          objetos g' 1 = objetos jogo_aluguel_proprio 1"
    by auto
  with i d s0 show ?thesis by blast
qed

text \<open>
  Claim C6: for a position \<open>p\<close> in \<open>0..20\<close> and a roll \<open>r\<close> in \<open>1..6\<close>, the position
  wraps exactly when \<open>p + r > 20\<close>, to \<open>p + r - 20\<close>, with a credit of exactly 100 made
  before the purchase or rent step; otherwise it becomes \<open>p + r\<close> with no credit; the new
  position is in \<open>1..20\<close>, it is the position the turn ends with, and on a board of 20
  properties the turn raises no exception.
\<close>

theorem anda_posicao:
  assumes "0 \<le> posicao_tabuleiro (objetos g self)" and "posicao_tabuleiro (objetos g self) \<le> 20"
      and "1 \<le> dado" and "dado \<le> 6"
  shows "posicao_tabuleiro (anda dado (objetos g self)) =
           (if posicao_tabuleiro (objetos g self) + dado > 20
            then posicao_tabuleiro (objetos g self) + dado - 20
            else posicao_tabuleiro (objetos g self) + dado) \<and>
         saldo (anda dado (objetos g self)) =
           (if posicao_tabuleiro (objetos g self) + dado > 20
            then saldo (objetos g self) + 100 else saldo (objetos g self)) \<and>
         1 \<le> posicao_tabuleiro (anda dado (objetos g self)) \<and>
         posicao_tabuleiro (anda dado (objetos g self)) \<le> 20 \<and>
         executa_jogada self dado moeda g =
           negocia self moeda (g\<lparr>objetos := (objetos g)(self := anda dado (objetos g self))\<rparr>) \<and>
         (\<forall>g'. executa_jogada self dado moeda g = Inr g' \<longrightarrow>
            posicao_tabuleiro (objetos g' self) = posicao_tabuleiro (anda dado (objetos g self))) \<and>
         (length (tabuleiro g) = 20 \<longrightarrow> (\<exists>g'. executa_jogada self dado moeda g = Inr g'))"
proof -
  let ?j = "anda dado (objetos g self)"
  have pos: "posicao_tabuleiro ?j =
           (if posicao_tabuleiro (objetos g self) + dado > 20
            then posicao_tabuleiro (objetos g self) + dado - 20
            else posicao_tabuleiro (objetos g self) + dado)"
    by (simp add: anda_def)
  have sal: "saldo ?j =
           (if posicao_tabuleiro (objetos g self) + dado > 20
            then saldo (objetos g self) + 100 else saldo (objetos g self))"
    by (simp add: anda_def)
  have lo: "1 \<le> posicao_tabuleiro ?j" and hi: "posicao_tabuleiro ?j \<le> 20"
    using assms by (auto simp: anda_def)
  have keep: "\<forall>g'. executa_jogada self dado moeda g = Inr g' \<longrightarrow>
            posicao_tabuleiro (objetos g' self) = posicao_tabuleiro ?j"
    by (auto simp: executa_jogada_def negocia_def Let_def split: option.splits prod.splits if_splits)
  have ok: "length (tabuleiro g) = 20 \<longrightarrow> (\<exists>g'. executa_jogada self dado moeda g = Inr g')"
    using lo hi by (auto simp: executa_jogada_def negocia_Inr_iff indice_20)
  show ?thesis
    using pos sal lo hi keep ok by (simp add: executa_jogada_def)
qed

theorem anda_posicao_witness:
  "0 \<le> posicao_tabuleiro (objetos jogo_casa_18 0) \<and>
   posicao_tabuleiro (objetos jogo_casa_18 0) \<le> 20 \<and> (1::int) \<le> 5 \<and> (5::int) \<le> 6 \<and>
   posicao_tabuleiro (objetos jogo_casa_18 0) = 18 \<and>
   saldo (objetos jogo_casa_18 0) = 300 \<and>
   posicao_tabuleiro (anda 5 (objetos jogo_casa_18 0)) = 3 \<and>
   saldo (anda 5 (objetos jogo_casa_18 0)) = 400 \<and>
   (\<exists>g'. executa_jogada 0 5 0 jogo_casa_18 = Inr g' \<and> posicao_tabuleiro (objetos g' 0) = 3)"
proof -
  have p: "posicao_tabuleiro (objetos jogo_casa_18 0) = 18"
      and s: "saldo (objetos jogo_casa_18 0) = 300"
      and l: "length (tabuleiro jogo_casa_18) = 20"
    by (simp_all add: jogo_casa_18_def mesa_def novo_jogador_def)
  have h: "0 \<le> posicao_tabuleiro (objetos jogo_casa_18 0)"
      "posicao_tabuleiro (objetos jogo_casa_18 0) \<le> 20" "(1::int) \<le> 5" "(5::int) \<le> 6"
    using p by simp_all
  note t = anda_posicao[OF h, of 0]
  from t p have a: "posicao_tabuleiro (anda 5 (objetos jogo_casa_18 0)) = 3" by simp
  from t p s have b: "saldo (anda 5 (objetos jogo_casa_18 0)) = 400" by simp
  from t l obtain g' where e: "executa_jogada 0 5 0 jogo_casa_18 = Inr g'" by blast
  with t a have "posicao_tabuleiro (objetos g' 0) = 3" by simp
  with e have "\<exists>g'. executa_jogada 0 5 0 jogo_casa_18 = Inr g' \<and>
                 posicao_tabuleiro (objetos g' 0) = 3"
    by blast
  with h p s a b show ?thesis by blast
qed

text \<open>
  Claim C10: a purchase approved by the cautious rule (\<open>cauteloso\<close> set, \<open>impulsivo\<close> and
  \<open>exigente\<close> not set, balance - price \<open>\<ge> 80\<close>) leaves a balance of at least 80, so the
  turn does not change the bankruptcy flag.
\<close>

theorem compra_cautelosa:
  assumes "cauteloso (comportamento (objetos g self))"
      and "\<not> impulsivo (comportamento (objetos g self))"
      and "\<not> exigente (comportamento (objetos g self))"
      and "indice (tabuleiro g) (posicao_tabuleiro (anda dado (objetos g self)) - 1) = Some k"
      and "dono (tabuleiro g ! k) = None"
      and "saldo (anda dado (objetos g self)) - custo_venda (tabuleiro g ! k) \<ge> 80"
  shows "\<exists>g'. executa_jogada self dado moeda g = Inr g' \<and>
           dono (tabuleiro g' ! k) = Some self \<and>
           saldo (objetos g' self) =
             saldo (anda dado (objetos g self)) - custo_venda (tabuleiro g ! k) \<and>
           saldo (objetos g' self) \<ge> 80 \<and>
           falido (objetos g' self) = falido (objetos g self)"
  using assms indice_Some[OF assms(4)]
  by (auto simp: executa_jogada_def negocia_def Let_def anda_campos decide_compra_def
           split: option.splits prod.splits if_splits)

theorem compra_cautelosa_witness:
  "cauteloso (comportamento (objetos jogo_cauteloso 0)) \<and>
   \<not> impulsivo (comportamento (objetos jogo_cauteloso 0)) \<and>
   \<not> exigente (comportamento (objetos jogo_cauteloso 0)) \<and>
   indice (tabuleiro jogo_cauteloso)
          (posicao_tabuleiro (anda 1 (objetos jogo_cauteloso 0)) - 1) = Some 0 \<and>
   dono (tabuleiro jogo_cauteloso ! 0) = None \<and>
   saldo (anda 1 (objetos jogo_cauteloso 0)) - custo_venda (tabuleiro jogo_cauteloso ! 0) = 80 \<and>
   (\<exists>g'. executa_jogada 0 1 0 jogo_cauteloso = Inr g' \<and>
          dono (tabuleiro g' ! 0) = Some 0 \<and> saldo (objetos g' 0) = 80 \<and>
          \<not> falido (objetos g' 0))"
proof -
  have c: "cauteloso (comportamento (objetos jogo_cauteloso 0))"
      "\<not> impulsivo (comportamento (objetos jogo_cauteloso 0))"
      "\<not> exigente (comportamento (objetos jogo_cauteloso 0))"
    by (simp_all add: jogo_cauteloso_def mesa_def novo_jogador_def nova_propriedade_def
                  so_cauteloso_def jogada_defs)
  have i: "indice (tabuleiro jogo_cauteloso)
             (posicao_tabuleiro (anda 1 (objetos jogo_cauteloso 0)) - 1) = Some 0"
    by (simp add: jogo_cauteloso_def mesa_def novo_jogador_def nova_propriedade_def
                  so_cauteloso_def jogada_defs)
  have d: "dono (tabuleiro jogo_cauteloso ! 0) = None"
    by (simp add: jogo_cauteloso_def mesa_def novo_jogador_def nova_propriedade_def
                  so_cauteloso_def jogada_defs)
  have v: "saldo (anda 1 (objetos jogo_cauteloso 0)) -
             custo_venda (tabuleiro jogo_cauteloso ! 0) = 80"
    by (simp add: jogo_cauteloso_def mesa_def novo_jogador_def nova_propriedade_def
                  so_cauteloso_def jogada_defs)
  then have r: "saldo (anda 1 (objetos jogo_cauteloso 0)) -
             custo_venda (tabuleiro jogo_cauteloso ! 0) \<ge> 80"
    by simp
  have f: "\<not> falido (objetos jogo_cauteloso 0)"
    by (simp add: jogo_cauteloso_def mesa_def novo_jogador_def nova_propriedade_def
                  so_cauteloso_def jogada_defs)
  from compra_cautelosa[OF c i d r, of 0] obtain g' where
      "executa_jogada 0 1 0 jogo_cauteloso = Inr g'"
      "dono (tabuleiro g' ! 0) = Some 0"
      "saldo (objetos g' 0) =
         saldo (anda 1 (objetos jogo_cauteloso 0)) - custo_venda (tabuleiro jogo_cauteloso ! 0)"
      "falido (objetos g' 0) = falido (objetos jogo_cauteloso 0)"
    by blast
  with v f have "\<exists>g'. executa_jogada 0 1 0 jogo_cauteloso = Inr g' \<and>
          dono (tabuleiro g' ! 0) = Some 0 \<and> saldo (objetos g' 0) = 80 \<and>
          \<not> falido (objetos g' 0)"
    by auto
  with c i d v show ?thesis by blast
qed

section \<open>Properties of the game loop\<close>

lemma executa_jogada_outros:
  "executa_jogada self dado moeda g = Inr g' \<Longrightarrow> b \<noteq> self \<Longrightarrow> objetos g' b = objetos g b"
  by (auto simp: executa_jogada_def negocia_def Let_def split: option.splits prod.splits if_splits)

lemma executa_jogada_jogadores:
  "executa_jogada self dado moeda g = Inr g' \<Longrightarrow> jogadores g' = jogadores g"
  by (auto simp: executa_jogada_def negocia_def Let_def split: option.splits prod.splits if_splits)

lemma executa_jogada_falido:
  "executa_jogada self dado moeda g = Inr g' \<Longrightarrow> falido (objetos g a) \<Longrightarrow> falido (objetos g' a)"
  by (auto simp: executa_jogada_def negocia_def Let_def anda_def
           split: option.splits prod.splits if_splits)

lemma executa_jogada_posse:
  assumes "executa_jogada self dado moeda g = Inr g'" and "a \<noteq> self" and "sem_posse a g"
  shows "sem_posse a g'"
  using assms
  by (auto simp: executa_jogada_def negocia_def Let_def sem_posse_def
           split: option.splits prod.splits if_splits dest!: set_update_subset_insert[THEN subsetD])

lemma remove_jogador_campos:
  "objetos (remove_jogador a g) = objetos g" "jogadores (remove_jogador a g) = jogadores g"
  "rodada (remove_jogador a g) = rodada g"
  "jogadores_falidos (remove_jogador a g) = jogadores_falidos g"
  by (simp_all add: remove_jogador_def)

lemma dono_limpa_dono:
  "dono (limpa_dono mem jogador p) = Some a \<Longrightarrow> dono p = Some a \<and> mem a \<noteq> mem jogador"
  by (auto simp: limpa_dono_def split: option.splits if_splits)

lemma remove_jogador_limpa: "sem_posse a (remove_jogador a g)"
  by (auto simp: sem_posse_def remove_jogador_def dest: dono_limpa_dono)

lemma remove_jogador_posse: "sem_posse a g \<Longrightarrow> sem_posse a (remove_jogador b g)"
  by (auto simp: sem_posse_def remove_jogador_def dest: dono_limpa_dono)

lemma turno_outros:
  "turno self dado moeda g = Inr g' \<Longrightarrow> b \<noteq> self \<Longrightarrow> objetos g' b = objetos g b"
  by (auto simp: turno_def remove_jogador_campos split: sum.splits if_splits
           dest: executa_jogada_outros)

lemma turno_jogadores: "turno self dado moeda g = Inr g' \<Longrightarrow> jogadores g' = jogadores g"
  by (auto simp: turno_def remove_jogador_campos split: sum.splits if_splits
           dest: executa_jogada_jogadores)

lemma sem_posse_contadores [simp]:
  "sem_posse a (g\<lparr>jogadores_falidos := n\<rparr>) = sem_posse a g"
  "sem_posse a (g\<lparr>rodada := r\<rparr>) = sem_posse a g"
  by (simp_all add: sem_posse_def)

lemma turno_posse:
  assumes "turno self dado moeda g = Inr g'" and "a \<noteq> self" and "sem_posse a g"
  shows "sem_posse a g'"
proof -
  from assms(1) obtain g1 where e: "executa_jogada self dado moeda g = Inr g1"
      and g': "g' = (if falido (objetos g1 self)
                    then (remove_jogador self g1)\<lparr>jogadores_falidos := jogadores_falidos g1 + 1\<rparr>
                    else g1)"
    by (auto simp: turno_def split: sum.splits)
  have "sem_posse a g1" using executa_jogada_posse[OF e assms(2,3)] .
  then show ?thesis unfolding g' by (simp add: remove_jogador_posse)
qed

lemma turno_processa:
  "turno self dado moeda g = Inr g' \<Longrightarrow> falido (objetos g' self) \<Longrightarrow> sem_posse self g'"
  by (auto simp: turno_def remove_jogador_campos split: sum.splits if_splits
           intro: remove_jogador_limpa)

lemma percorre_jogadores: "percorre sorteio i js g = Inr g' \<Longrightarrow> jogadores g' = jogadores g"
proof (induction js arbitrary: i g)
  case Nil
  then show ?case by simp
next
  case (Cons j js)
  then show ?case
    by (auto split: if_splits sum.splits dest: turno_jogadores)
qed

lemma volta_jogadores: "volta sorteio g = Inr g' \<Longrightarrow> jogadores g' = jogadores g"
  by (auto simp: volta_def split: sum.splits dest: percorre_jogadores)

lemma enquanto_jogadores: "enquanto sorteio g = Inr g' \<Longrightarrow> jogadores g' = jogadores g"
proof (induction sorteio g rule: enquanto.induct)
  case (1 sorteio g)
  show ?case
  proof (cases "rodada g < 1000 \<and> jogadores_falidos g < 3")
    case False
    with "1.prems" show ?thesis by (auto simp: enquanto.simps[of sorteio g])
  next
    case True
    with "1.prems" obtain g1 where v: "volta sorteio g = Inr g1" and e: "enquanto sorteio g1 = Inr g'"
      by (auto simp: enquanto.simps[of sorteio g] split: sum.splits)
    from "1.IH"[OF True v e] volta_jogadores[OF v] show ?thesis by simp
  qed
qed

lemma escolhe_Some: "\<exists>w. escolhe mem (Some v) js = Some w"
  by (induction js arbitrary: v) simp_all

lemma escolhe_nao_vazia: "js \<noteq> [] \<Longrightarrow> \<exists>w. escolhe mem None js = Some w"
  by (cases js) (simp_all add: escolhe_Some)

lemma escolhe_snoc:
  "escolhe mem v (js @ [j]) =
     (case escolhe mem v js of
        None \<Rightarrow> Some j
      | Some w \<Rightarrow> if saldo (mem j) > saldo (mem w) then Some j else Some w)"
  by (induction js arbitrary: v) simp_all

lemma rotulo_chaves:
  "retorna_comportamento j \<noteq> Some ''timeout''" "retorna_comportamento j \<noteq> Some ''turnos''"
  by (simp_all add: retorna_comportamento_def)

lemmas rodada_defs =
  volta_def turno_def remove_jogador_def limpa_dono_def jogada_defs

lemma tres_impulsivos_fim:
  "\<exists>g'. enquanto sempre_um tres_impulsivos = Inr g' \<and> rodada g' = 1 \<and> jogadores_falidos g' = 3"
  by (simp add: enquanto.simps tres_impulsivos_def sempre_um_def novo_jogador_def
                nova_propriedade_def so_impulsivo_def rodada_defs)

lemma ultima_rodada_fim:
  "\<exists>g'. enquanto sempre_um jogo_ultima_rodada = Inr g' \<and> rodada g' = 1000 \<and>
        jogadores_falidos g' = 0 \<and> jogadores g' = [0] \<and>
        retorna_comportamento (objetos g' 0) = Some ''impulsivo''"
  by (simp add: enquanto.simps jogo_ultima_rodada_def sempre_um_def mesa_def novo_jogador_def
                nova_propriedade_def so_impulsivo_def retorna_comportamento_def rodada_defs)

lemma tres_impulsivos_turnos:
  "\<exists>g1 g2 g3. turno 0 1 0 tres_impulsivos = Inr g1 \<and> falido (objetos g1 0) \<and>
          1 \<in> set (jogadores g1) \<and> \<not> falido (objetos g1 1) \<and> turno 1 1 0 g1 = Inr g2 \<and>
          enquanto sempre_um g2 = Inr g3"
  by (simp add: enquanto.simps tres_impulsivos_def sempre_um_def novo_jogador_def
                nova_propriedade_def so_impulsivo_def rodada_defs)

text \<open>
  Claim C1: the winner chosen by \<open>play\<close> (lines 158-163) is, for a list of players that
  is not empty, the player at the least index whose balance is the maximum over all the
  players of the list, bankrupt or not: no balance exceeds the winner's, and every
  earlier player has a strictly smaller balance. With equal balances the first player
  wins.
\<close>

theorem escolhe_primeiro_maximo:
  assumes "js \<noteq> []"
  shows "\<exists>i<length js. escolhe mem None js = Some (js ! i) \<and>
           (\<forall>k<length js. saldo (mem (js ! k)) \<le> saldo (mem (js ! i))) \<and>
           (\<forall>k<i. saldo (mem (js ! k)) < saldo (mem (js ! i)))"
  using assms
proof (induction js rule: rev_nonempty_induct)
  case (single j)
  then show ?case by simp
next
  case (snoc j js)
  then obtain i where i: "i < length js" "escolhe mem None js = Some (js ! i)"
      and mx: "\<forall>k<length js. saldo (mem (js ! k)) \<le> saldo (mem (js ! i))"
      and fst: "\<forall>k<i. saldo (mem (js ! k)) < saldo (mem (js ! i))"
    by blast
  show ?case
  proof (cases "saldo (mem j) > saldo (mem (js ! i))")
    case True
    have "escolhe mem None (js @ [j]) = Some ((js @ [j]) ! length js)"
      using i True by (simp add: escolhe_snoc)
    moreover have "\<forall>k<length (js @ [j]). saldo (mem ((js @ [j]) ! k)) \<le> saldo (mem ((js @ [j]) ! length js))"
      using mx True by (auto simp: nth_append less_Suc_eq intro: order_trans less_imp_le)
    moreover have "\<forall>k<length js. saldo (mem ((js @ [j]) ! k)) < saldo (mem ((js @ [j]) ! length js))"
      using mx True by (auto simp: nth_append intro: le_less_trans)
    ultimately show ?thesis
      by (intro exI[of _ "length js"]) simp
  next
    case False
    have "escolhe mem None (js @ [j]) = Some ((js @ [j]) ! i)"
      using i False by (simp add: escolhe_snoc nth_append)
    moreover have "\<forall>k<length (js @ [j]). saldo (mem ((js @ [j]) ! k)) \<le> saldo (mem ((js @ [j]) ! i))"
      using mx False i by (auto simp: nth_append less_Suc_eq)
    moreover have "\<forall>k<i. saldo (mem ((js @ [j]) ! k)) < saldo (mem ((js @ [j]) ! i))"
      using fst i by (auto simp: nth_append)
    ultimately show ?thesis
      using i by (intro exI[of _ i]) simp
  qed
qed

theorem escolhe_primeiro_maximo_witness:
  "[0, 1, 2, 3] \<noteq> ([]::nat list) \<and>
   saldo (quatro_iguais 0) = 300 \<and> saldo (quatro_iguais 1) = 300 \<and>
   saldo (quatro_iguais 2) = 300 \<and> saldo (quatro_iguais 3) = 300 \<and>
   escolhe quatro_iguais None [0, 1, 2, 3] = Some 0"
proof -
  have ne: "[0, 1, 2, 3] \<noteq> ([]::nat list)" by simp
  have s: "saldo (quatro_iguais 0) = 300" "saldo (quatro_iguais 1) = 300"
      "saldo (quatro_iguais 2) = 300" "saldo (quatro_iguais 3) = 300"
    by (simp_all add: quatro_iguais_def novo_jogador_def)
  from escolhe_primeiro_maximo[OF ne, of quatro_iguais] obtain i where
      i: "i < length [0, 1, 2, 3::nat]"
      and e: "escolhe quatro_iguais None [0, 1, 2, 3] = Some ([0, 1, 2, 3] ! i)"
      and f: "\<forall>k<i. saldo (quatro_iguais ([0, 1, 2, 3] ! k)) < saldo (quatro_iguais ([0, 1, 2, 3] ! i))"
    by blast
  have c: "saldo (quatro_iguais b) = 300" for b
    by (simp add: quatro_iguais_def novo_jogador_def)
  from f have "i = 0" by (cases i) (auto simp: c)
  with e have "escolhe quatro_iguais None [0, 1, 2, 3] = Some 0" by simp
  with ne s show ?thesis by blast
qed

lemma enquanto_voltas:
  "\<exists>n. n \<le> nat (1000 - rodada g) \<and> enquanto sorteio g = voltas sorteio n g \<and>
       (\<forall>g'. enquanto sorteio g = Inr g' \<longrightarrow>
          rodada g' = rodada g + int n \<and> \<not> (rodada g' < 1000 \<and> jogadores_falidos g' < 3))"
proof (induction sorteio g rule: enquanto.induct)
  case (1 sorteio g)
  show ?case
  proof (cases "rodada g < 1000 \<and> jogadores_falidos g < 3")
    case False
    then have "enquanto sorteio g = Inr g" by (auto simp: enquanto.simps[of sorteio g])
    then show ?thesis using False by (intro exI[of _ 0]) auto
  next
    case True
    show ?thesis
    proof (cases "volta sorteio g")
      case (Inl e)
      then have "enquanto sorteio g = voltas sorteio (Suc 0) g" using True by (simp add: enquanto.simps[of sorteio g])
      moreover have "enquanto sorteio g = Inl e" using True Inl by (simp add: enquanto.simps[of sorteio g])
      ultimately show ?thesis using True by (intro exI[of _ "Suc 0"]) auto
    next
      case (Inr g1)
      from "1.IH"[OF True Inr] obtain n where n: "n \<le> nat (1000 - rodada g1)"
          "enquanto sorteio g1 = voltas sorteio n g1"
          "\<forall>g'. enquanto sorteio g1 = Inr g' \<longrightarrow>
             rodada g' = rodada g1 + int n \<and> \<not> (rodada g' < 1000 \<and> jogadores_falidos g' < 3)"
        by blast
      have r1: "rodada g1 = rodada g + 1" using Inr by (rule volta_rodada)
      have eq: "enquanto sorteio g = enquanto sorteio g1" using True Inr by (simp add: enquanto.simps[of sorteio g])
      have "Suc n \<le> nat (1000 - rodada g)" using n(1) r1 True by linarith
      moreover have "enquanto sorteio g = voltas sorteio (Suc n) g" using eq n(2) Inr by simp
      moreover have "\<forall>g'. enquanto sorteio g = Inr g' \<longrightarrow>
          rodada g' = rodada g + int (Suc n) \<and> \<not> (rodada g' < 1000 \<and> jogadores_falidos g' < 3)"
        using n(3) eq r1 by auto
      ultimately show ?thesis by blast
    qed
  qed
qed

text \<open>
  Claim C2: from a state whose round counter is between 0 and 1000 (the initial value
  is 0) the \<open>while\<close> loop ends after some number \<open>n \<le> 1000\<close> of rounds; when it ends
  without an exception the counter has grown by exactly \<open>n\<close>, does not exceed 1000, and
  the loop condition is false. Every round adds exactly 1 to the counter, whether or
  not the inner loop was left early, and with three bankrupt players no round is run.
\<close>

theorem enquanto_termina:
  assumes "0 \<le> rodada g" and "rodada g \<le> 1000"
  shows "\<exists>n\<le>1000. enquanto sorteio g = voltas sorteio n g \<and>
           (\<forall>g'. enquanto sorteio g = Inr g' \<longrightarrow>
              rodada g' = rodada g + int n \<and> rodada g' \<le> 1000 \<and>
              \<not> (rodada g' < 1000 \<and> jogadores_falidos g' < 3)) \<and>
           (\<forall>g1 g2. volta sorteio g1 = Inr g2 \<longrightarrow> rodada g2 = rodada g1 + 1) \<and>
           (jogadores_falidos g \<ge> 3 \<longrightarrow> enquanto sorteio g = Inr g)"
proof -
  from enquanto_voltas[of g sorteio] obtain n where n: "n \<le> nat (1000 - rodada g)"
      "enquanto sorteio g = voltas sorteio n g"
      "\<forall>g'. enquanto sorteio g = Inr g' \<longrightarrow>
          rodada g' = rodada g + int n \<and> \<not> (rodada g' < 1000 \<and> jogadores_falidos g' < 3)"
    by blast
  have "n \<le> 1000" using n(1) assms by linarith
  moreover have "\<forall>g'. enquanto sorteio g = Inr g' \<longrightarrow>
              rodada g' = rodada g + int n \<and> rodada g' \<le> 1000 \<and>
              \<not> (rodada g' < 1000 \<and> jogadores_falidos g' < 3)"
    using n(1,3) assms by auto
  moreover have "\<forall>g1 g2. volta sorteio g1 = Inr g2 \<longrightarrow> rodada g2 = rodada g1 + 1"
    by (auto dest: volta_rodada)
  moreover have "jogadores_falidos g \<ge> 3 \<longrightarrow> enquanto sorteio g = Inr g"
    by (simp add: enquanto.simps[of sorteio g])
  ultimately show ?thesis using n(2) by blast
qed

theorem enquanto_termina_witness:
  "0 \<le> rodada tres_impulsivos \<and> rodada tres_impulsivos \<le> 1000 \<and>
   (\<exists>g'. enquanto sempre_um tres_impulsivos = Inr g' \<and> rodada g' = 1 \<and>
         jogadores_falidos g' = 3 \<and>
         enquanto sempre_um tres_impulsivos = voltas sempre_um 1 tres_impulsivos \<and>
         volta sempre_um tres_impulsivos = Inr g')"
proof -
  have h: "0 \<le> rodada tres_impulsivos" "rodada tres_impulsivos \<le> 1000"
    by (simp_all add: tres_impulsivos_def)
  have r0: "rodada tres_impulsivos = 0" by (simp add: tres_impulsivos_def)
  from tres_impulsivos_fim obtain g' where e: "enquanto sempre_um tres_impulsivos = Inr g'"
      and f: "rodada g' = 1" "jogadores_falidos g' = 3"
    by blast
  from enquanto_termina[OF h, of sempre_um] obtain n where
      v: "enquanto sempre_um tres_impulsivos = voltas sempre_um n tres_impulsivos"
      and c: "\<forall>g'. enquanto sempre_um tres_impulsivos = Inr g' \<longrightarrow>
              rodada g' = rodada tres_impulsivos + int n"
    by blast
  from c e f r0 have n: "n = 1" by simp
  from v e n have "volta sempre_um tres_impulsivos = Inr g'"
    by (simp split: sum.splits)
  with v e f h n show ?thesis by blast
qed

text \<open>
  Claim C8: when the loop has ended in a state \<open>g'\<close> and the list of players is not
  empty, \<open>play\<close> returns the dictionary with \<open>"timeout"\<close> bound to 1 if the round counter
  of \<open>g'\<close> is 1000 and fewer than 3 players are bankrupt and to 0 otherwise,
  \<open>"turnos"\<close> bound to that round counter, and the label of the winner's strategy bound
  to 1; it has no other key.
\<close>

theorem play_resultado:
  assumes "enquanto sorteio g = Inr g'" and "jogadores g \<noteq> []"
  shows "\<exists>v r. escolhe (objetos g') None (jogadores g') = Some v \<and>
           play sorteio g = Inr r \<and>
           r (Some ''timeout'') =
             Some (if rodada g' = 1000 \<and> jogadores_falidos g' < 3 then 1 else 0) \<and>
           r (Some ''turnos'') = Some (rodada g') \<and>
           r (retorna_comportamento (objetos g' v)) = Some 1 \<and>
           dom r = {Some ''timeout'', Some ''turnos'', retorna_comportamento (objetos g' v)}"
proof -
  have "jogadores g' \<noteq> []" using assms enquanto_jogadores by simp
  then obtain v where v: "escolhe (objetos g') None (jogadores g') = Some v"
    using escolhe_nao_vazia by blast
  let ?r = "Map.empty(Some ''timeout'' \<mapsto> (if rodada g' = 1000 \<and> jogadores_falidos g' < 3 then 1 else 0),
                    Some ''turnos'' \<mapsto> rodada g',
                    retorna_comportamento (objetos g' v) \<mapsto> 1)"
  have p: "play sorteio g = Inr ?r"
    using assms(1) v by (simp add: play_def)
  have "?r (Some ''timeout'') =
             Some (if rodada g' = 1000 \<and> jogadores_falidos g' < 3 then 1 else 0)"
      and "?r (Some ''turnos'') = Some (rodada g')"
      and "?r (retorna_comportamento (objetos g' v)) = Some 1"
      and "dom ?r = {Some ''timeout'', Some ''turnos'', retorna_comportamento (objetos g' v)}"
    using rotulo_chaves[of "objetos g' v"] by auto
  with v p show ?thesis by blast
qed

theorem play_resultado_witness:
  "jogadores jogo_ultima_rodada \<noteq> [] \<and>
   (\<exists>g' r. enquanto sempre_um jogo_ultima_rodada = Inr g' \<and>
           play sempre_um jogo_ultima_rodada = Inr r \<and>
           r (Some ''timeout'') = Some 1 \<and> r (Some ''turnos'') = Some 1000 \<and>
           r (Some ''impulsivo'') = Some 1)"
proof -
  have ne: "jogadores jogo_ultima_rodada \<noteq> []"
    by (simp add: jogo_ultima_rodada_def mesa_def)
  from ultima_rodada_fim obtain g' where e: "enquanto sempre_um jogo_ultima_rodada = Inr g'"
      and f: "rodada g' = 1000" "jogadores_falidos g' = 0" "jogadores g' = [0]"
        "retorna_comportamento (objetos g' 0) = Some ''impulsivo''"
    by blast
  from play_resultado[OF e ne] obtain v r where
      v: "escolhe (objetos g') None (jogadores g') = Some v"
      and r: "play sempre_um jogo_ultima_rodada = Inr r"
        "r (Some ''timeout'') =
           Some (if rodada g' = 1000 \<and> jogadores_falidos g' < 3 then 1 else 0)"
        "r (Some ''turnos'') = Some (rodada g')"
        "r (retorna_comportamento (objetos g' v)) = Some 1"
    by blast
  from v f have "v = 0" by simp
  with r f have "r (Some ''timeout'') = Some 1" "r (Some ''turnos'') = Some 1000"
      "r (Some ''impulsivo'') = Some 1"
    by simp_all
  with e r(1) ne show ?thesis by blast
qed

lemma alcanca_falido_congelado:
  assumes "alcanca g0 g" and "falido (objetos g0 a)"
  shows "objetos g a = objetos g0 a \<and> jogadores g = jogadores g0"
  using assms
proof (induction rule: alcanca.induct)
  case inicio
  then show ?case by simp
next
  case (joga g jogador dado moeda g')
  then have "jogador \<noteq> a" by auto
  with joga show ?case by (auto dest: turno_outros turno_jogadores)
next
  case (fim_rodada g)
  then show ?case by simp
qed

lemma alcanca_jogadores: "alcanca g0 g \<Longrightarrow> jogadores g = jogadores g0"
  by (induction rule: alcanca.induct) (auto dest: turno_jogadores)

lemma alcanca_sem_posse:
  assumes "alcanca g0 g" and "falido (objetos g0 a)" and "sem_posse a g0"
  shows "sem_posse a g"
  using assms
proof (induction rule: alcanca.induct)
  case inicio
  then show ?case by simp
next
  case (joga g jogador dado moeda g')
  then have "objetos g a = objetos g0 a" by (auto dest: alcanca_falido_congelado)
  with joga have "jogador \<noteq> a" by auto
  with joga show ?case by (auto dest: turno_posse)
next
  case (fim_rodada g)
  then show ?case by simp
qed

lemma percorre_alcanca:
  "alcanca g0 g \<Longrightarrow> set js \<subseteq> set (jogadores g) \<Longrightarrow> percorre sorteio i js g = Inr g' \<Longrightarrow>
     alcanca g0 g'"
proof (induction js arbitrary: i g)
  case Nil
  then show ?case by simp
next
  case (Cons j js)
  show ?case
  proof (cases "falido (objetos g j)")
    case True
    with Cons show ?thesis by auto
  next
    case False
    with Cons.prems obtain g2 where t: "turno j (fst (sorteio i)) (snd (sorteio i)) g = Inr g2"
      by (auto split: sum.splits)
    have a2: "alcanca g0 g2"
      using Cons.prems(1,2) False t by (auto intro: alcanca.joga)
    show ?thesis
    proof (cases "jogadores_falidos g2 > 2")
      case True
      with Cons.prems False t have "g' = g2" by simp
      with a2 show ?thesis by simp
    next
      case F2: False
      with Cons.prems False t have "percorre sorteio (Suc i) js g2 = Inr g'" by simp
      moreover have "set js \<subseteq> set (jogadores g2)"
        using Cons.prems(2) turno_jogadores[OF t] by simp
      ultimately show ?thesis using Cons.IH a2 by blast
    qed
  qed
qed

lemma volta_alcanca: "alcanca g0 g \<Longrightarrow> volta sorteio g = Inr g' \<Longrightarrow> alcanca g0 g'"
  by (auto simp: volta_def split: sum.splits intro: alcanca.fim_rodada dest: percorre_alcanca[rotated 2])

lemma enquanto_alcanca: "alcanca g0 g \<Longrightarrow> enquanto sorteio g = Inr g' \<Longrightarrow> alcanca g0 g'"
proof (induction sorteio g rule: enquanto.induct)
  case (1 sorteio g)
  show ?case
  proof (cases "rodada g < 1000 \<and> jogadores_falidos g < 3")
    case False
    with "1.prems" show ?thesis by (auto simp: enquanto.simps[of sorteio g])
  next
    case True
    with "1.prems" obtain g1 where v: "volta sorteio g = Inr g1" and e: "enquanto sorteio g1 = Inr g'"
      by (auto simp: enquanto.simps[of sorteio g] split: sum.splits)
    from "1.IH"[OF True v volta_alcanca[OF "1.prems"(1) v] e] show ?thesis .
  qed
qed

text \<open>
  Claim C7: let the player at address \<open>a\<close> be bankrupt in a state \<open>g1\<close>, and let \<open>g2\<close> be
  any state the loops reach from \<open>g1\<close>. Then the player is still bankrupt in \<open>g2\<close>; its
  object is unchanged, since the \<open>for\<close> loop skips it and so it takes no turn; if \<open>g1\<close> is
  the state in which the game has just processed the player's turn (lines 146-149), no
  property has the player as owner in \<open>g1\<close>, nor in \<open>g2\<close> (\<open>remove_jogador\<close> leaves no
  property with the removed player as owner); and the state in which the \<open>while\<close> loop
  ends is again such a state \<open>g2\<close>.
\<close>

theorem falido_permanente:
  assumes "falido (objetos g1 a)" and "alcanca g1 g2"
  shows "falido (objetos g2 a) \<and> objetos g2 a = objetos g1 a \<and>
         (\<forall>sorteio i resto.
            percorre sorteio i (a # resto) g2 = percorre sorteio (Suc i) resto g2) \<and>
         sem_posse a (remove_jogador a g2) \<and>
         ((\<exists>g dado moeda. turno a dado moeda g = Inr g1) \<longrightarrow> sem_posse a g1) \<and>
         (sem_posse a g1 \<longrightarrow> sem_posse a g2) \<and>
         (\<forall>sorteio g3. enquanto sorteio g2 = Inr g3 \<longrightarrow> alcanca g1 g3)"
proof -
  have cong: "objetos g2 a = objetos g1 a"
    using alcanca_falido_congelado[OF assms(2,1)] by simp
  then have f2: "falido (objetos g2 a)" using assms(1) by simp
  then have pula: "\<forall>sorteio i resto.
            percorre sorteio i (a # resto) g2 = percorre sorteio (Suc i) resto g2"
    by simp
  have proc: "(\<exists>g dado moeda. turno a dado moeda g = Inr g1) \<longrightarrow> sem_posse a g1"
    using assms(1) by (auto dest: turno_processa)
  have sp: "sem_posse a g1 \<longrightarrow> sem_posse a g2"
    using alcanca_sem_posse[OF assms(2,1)] by blast
  have fim: "\<forall>sorteio g3. enquanto sorteio g2 = Inr g3 \<longrightarrow> alcanca g1 g3"
    using enquanto_alcanca[OF assms(2)] by blast
  show ?thesis
    by (intro conjI f2 cong pula remove_jogador_limpa proc sp fim)
qed

theorem falido_permanente_witness:
  "\<exists>g1 g2 g3. turno 0 1 0 tres_impulsivos = Inr g1 \<and> falido (objetos g1 0) \<and>
          turno 1 1 0 g1 = Inr g2 \<and> alcanca g1 g2 \<and>
          falido (objetos g2 0) \<and> objetos g2 0 = objetos g1 0 \<and>
          sem_posse 0 g1 \<and> sem_posse 0 g2 \<and>
          enquanto sempre_um g2 = Inr g3 \<and> alcanca g1 g3"
proof -
  from tres_impulsivos_turnos obtain g1 g2 g3 where
      t0: "turno 0 1 0 tres_impulsivos = Inr g1" and f: "falido (objetos g1 0)"
      and m: "1 \<in> set (jogadores g1)" and n: "\<not> falido (objetos g1 1)"
      and t1: "turno 1 1 0 g1 = Inr g2" and e: "enquanto sempre_um g2 = Inr g3"
    by blast
  have a: "alcanca g1 g2"
    using alcanca.joga[OF alcanca.inicio m n t1] .
  from falido_permanente[OF f a] t0 e
  have "falido (objetos g2 0)" "objetos g2 0 = objetos g1 0" "sem_posse 0 g1" "sem_posse 0 g2"
      "alcanca g1 g3"
    by blast+
  with t0 f t1 a e show ?thesis by blast
qed

end
